theory Spec2Isabelle
  imports Main "HOL-Library.Word"
begin

section \<open>The canonical form of a Cloud Foundry application\<close>

text \<open>
  The sources declare data only: Go struct types with JSON tags and three groups of
  string constants. They hold five successive versions of the same declarations:
  \<^verbatim>\<open>cfApplication.go\<close> and the four fragments of \<^verbatim>\<open>unnamed/part_000\<close>
  (fragment 1: lines 1-53, fragment 2: lines 55-178, fragment 3: lines 180-298,
  fragment 4: lines 300-466). A name without suffix below is the declaration of
  fragment 4, the latest one; the suffix \<open>_f3\<close> marks a declaration of fragment 3.

  In the records of fragment 4 a Go \<^verbatim>\<open>uint\<close> field is a \<open>nat\<close>: those values are only
  stored and written out, never computed. The Port of the fragment-3 Route, which the
  route normalizer computes from text, is a machine word (\<open>uint\<close> below), so that a
  value that does not fit is an error of the model and never a Route. A Go
  \<^verbatim>\<open>map[string]T\<close> is a partial function.
\<close>

subsection \<open>JSON values\<close>

datatype json =
  JNull
| JBool bool
| JNum nat
| JStr string
| JArr "json list"
| JObj "(string \<times> json) list"

text \<open>The members of a JSON object, in order; any other value has none.\<close>

fun members :: "json \<Rightarrow> (string \<times> json) list" where
  "members (JObj kvs) = kvs"
| "members _ = []"

subsection \<open>String-typed enumerations\<close>

text \<open>
  \<^verbatim>\<open>type RouteProtocol string\<close> with the constant block
  \<^verbatim>\<open>HTTP = "http"; HTTPS = "https"; TCP = "tcp"\<close>. The block is the same, character for
  character, in all five versions (cfApplication.go lines 36-42; part_000 lines 43-49,
  105-111, 229-235 and 368-374). The type itself is Go's \<^verbatim>\<open>string\<close>: the constants
  name three of its values and do not close it.
\<close>

type_synonym RouteProtocol = string

definition HTTP :: RouteProtocol where
  "HTTP = ''http''"

definition HTTPS :: RouteProtocol where
  "HTTPS = ''https''"

definition TCP :: RouteProtocol where
  "TCP = ''tcp''"

text \<open>The constants the block declares, in the order of the block.\<close>

definition RouteProtocol_constants :: "RouteProtocol list" where
  "RouteProtocol_constants = [HTTP, HTTPS, TCP]"

text \<open>\<^verbatim>\<open>type ProcessType string\<close> with \<^verbatim>\<open>Web = "web"; Worker = "worker"\<close>
  (part_000 lines 459-466).\<close>

type_synonym ProcessType = string

definition Web :: ProcessType where
  "Web = ''web''"

definition Worker :: ProcessType where
  "Worker = ''worker''"

subsection \<open>Records of fragment 4 (part_000 lines 300-466)\<close>

text \<open>\<^verbatim>\<open>type Metadata struct\<close>, lines 329-339.\<close>

record Metadata =
  Name :: string
  Space :: string
  Labels :: "string \<rightharpoonup> string"
  Annotations :: "string \<rightharpoonup> string"

text \<open>\<^verbatim>\<open>type Route struct\<close>, lines 359-366: a URL and a protocol, and no port.
  cfApplication.go (lines 19-22) declares the same two Go fields.\<close>

record Route =
  URL :: string
  Protocol :: RouteProtocol

type_synonym Routes = "Route list"

text \<open>\<^verbatim>\<open>type Service struct\<close>, lines 394-402.\<close>

record Service =
  Name :: string
  Parameters :: "string \<rightharpoonup> json"

type_synonym Services = "Service list"

text \<open>\<^verbatim>\<open>type Probe struct\<close>, lines 447-455.\<close>

record Probe =
  Endpoint :: string
  Timeout :: nat
  Interval :: nat

text \<open>\<^verbatim>\<open>type Process struct\<close>, lines 409-428, field by field in the order of the
  declaration.\<close>

record Process =
  Type :: ProcessType
  Image :: string
  Command :: "string list"
  DiskQuota :: string
  Memory :: string
  HealthCheck :: Probe
  ReadinessCheck :: Probe
  Replicas :: nat
  LogRateLimit :: string

type_synonym Processes = "Process list"

type_synonym ProcessTypes = "ProcessType list"

text \<open>\<^verbatim>\<open>type Sidecar struct\<close>, lines 434-444.\<close>

record Sidecar =
  Name :: string
  ProcessTypes :: ProcessTypes
  Command :: "string list"
  Memory :: string

type_synonym Sidecars = "Sidecar list"

text \<open>\<^verbatim>\<open>type Application struct\<close>, lines 303-326. This is the only version whose
  Application has a \<^verbatim>\<open>Routes\<close> field.\<close>

record Application =
  Metadata :: Metadata
  Env :: "string \<rightharpoonup> string"
  Routes :: Routes
  Services :: Services
  Processes :: Processes
  Sidecars :: Sidecars
  Stack :: string
  StartupTimeout :: nat
  Replicas :: nat

subsection \<open>The JSON object of a Process\<close>

text \<open>
  The struct tags fix what \<^verbatim>\<open>encoding/json\<close> writes for a value: one member per
  field, under the tag's name, in the order of the declaration; a field tagged
  \<^verbatim>\<open>omitempty\<close> is left out when it is the empty string, zero or an empty slice,
  and a struct-valued field is always written.
\<close>

definition omitempty_string :: "string \<Rightarrow> string \<Rightarrow> (string \<times> json) list" where
  "omitempty_string key s = (if s = [] then [] else [(key, JStr s)])"

definition omitempty_strings :: "string \<Rightarrow> string list \<Rightarrow> (string \<times> json) list" where
  "omitempty_strings key ss = (if ss = [] then [] else [(key, JArr (map JStr ss))])"

text \<open>Probe: \<^verbatim>\<open>json:"endpoint"\<close>, \<^verbatim>\<open>json:"timeout"\<close>, \<^verbatim>\<open>json:"interval"\<close>.\<close>

definition marshal_Probe :: "Probe \<Rightarrow> json" where
  "marshal_Probe p =
     JObj [(''endpoint'', JStr (Endpoint p)),
           (''timeout'', JNum (Timeout p)),
           (''interval'', JNum (Interval p))]"

text \<open>Process: the nine tags of lines 411-427.\<close>

definition marshal_Process :: "Process \<Rightarrow> json" where
  "marshal_Process p =
     JObj (omitempty_string ''type'' (Process.Type p)
         @ [(''image'', JStr (Image p))]
         @ omitempty_strings ''command'' (Process.Command p)
         @ omitempty_string ''disk'' (DiskQuota p)
         @ omitempty_string ''memory'' (Process.Memory p)
         @ [(''healthCheck'', marshal_Probe (HealthCheck p)),
            (''readinessCheck'', marshal_Probe (ReadinessCheck p)),
            (''replicas'', JNum (Process.Replicas p))]
         @ omitempty_string ''logRateLimit'' (LogRateLimit p))"

text \<open>The member names of an object.\<close>

definition member_names :: "json \<Rightarrow> string list" where
  "member_names j = map fst (members j)"

subsection \<open>Fragment 3: a route with a port (part_000 lines 219-227)\<close>

text \<open>\<^verbatim>\<open>type Route struct\<close> of fragment 3: hostname, protocol and port. Its comment
  states the rule for the port: for \<^verbatim>\<open>http\<close> it is 80, for \<^verbatim>\<open>http2\<close> it is 443,
  and for \<^verbatim>\<open>tcp\<close> it is as defined in the CF application manifest. The comment of
  the later Route (lines 360-361) adds that a port contained in the hostname is
  captured in the Port field.\<close>

text \<open>Go's \<^verbatim>\<open>uint\<close> at its width on 64-bit targets. (On a 32-bit target the width
  is 32; only the bound changes.)\<close>

type_synonym uint = "64 word"

record Route_f3 =
  Hostname :: string
  Protocol :: RouteProtocol
  Port :: uint

subsection \<open>The route normalizer\<close>

text \<open>
  The sources declare the Route records and document the port rule in comments; the
  function that applies the rule is not among them. It is modelled here from
  sections 4.1, 4.2 and 7 of the specification.
\<close>

text \<open>Modelled from the spec: the error kinds of section 7 that a route can raise,
  \<^verbatim>\<open>ShapeError\<close> and \<^verbatim>\<open>MissingPortError\<close>. The sources declare no error type.\<close>

datatype error = ShapeError | MissingPortError

text \<open>Modelled from the spec: a route node of Shape A or Shape B (section 4.1) as the
  normalizer reads it: the string under \<^verbatim>\<open>hostname\<close>, \<^verbatim>\<open>fqdn\<close> or \<^verbatim>\<open>url\<close> (or the
  bare string), the string under \<^verbatim>\<open>protocol\<close>, and the explicit \<^verbatim>\<open>port\<close> field
  when the node has one. The node comes from an untyped tree, so its port is a
  number of any size and its protocol any string; a node without a protocol has the
  empty string there, for which the spec names no default. The sources declare no
  input type with a port.\<close>

record RouteNode =
  address :: string
  protocol :: string
  port :: "nat option"

text \<open>Modelled from the spec: "the suffix is numeric" (section 4.2) read as a
  non-empty run of decimal digits, and its value as a number. The value of a long
  run exceeds every \<^verbatim>\<open>uint\<close>; the normalizer checks the range before it stores
  the value in a Route.\<close>

definition is_digit :: "char \<Rightarrow> bool" where
  "is_digit c = (c \<in> set ''0123456789'')"

definition digit_value :: "char \<Rightarrow> nat" where
  "digit_value c = of_char c - 48"

definition numeric :: "string \<Rightarrow> bool" where
  "numeric s = (s \<noteq> [] \<and> list_all is_digit s)"

definition decimal :: "string \<Rightarrow> nat" where
  "decimal s = foldl (\<lambda>n c. 10 * n + digit_value c) 0 s"

text \<open>Modelled from the spec: "split the URL on the last \<^verbatim>\<open>:\<close>" (section 4.2): the
  text before the last colon and the text after it, if the string has a colon.\<close>

definition split_last_colon :: "string \<Rightarrow> (string \<times> string) option" where
  "split_last_colon s =
     (if CHR '':'' \<in> set s
      then Some (rev (tl (dropWhile (\<lambda>c. c \<noteq> CHR '':'') (rev s))),
                 rev (takeWhile (\<lambda>c. c \<noteq> CHR '':'') (rev s)))
      else None)"

text \<open>Modelled from the spec: the embedded port of a URL (section 4.2): the URL is
  split on its last colon "if the suffix is numeric (treat as embedded port)";
  otherwise the URL embeds no port.\<close>

definition embedded_port :: "string \<Rightarrow> (string \<times> nat) option" where
  "embedded_port s =
     (case split_last_colon s of
        None \<Rightarrow> None
      | Some (h, d) \<Rightarrow> if numeric d then Some (h, decimal d) else None)"

text \<open>Modelled from the spec: storing a port in the \<^verbatim>\<open>uint\<close> field of a Route.
  The spec gives Port the type \<^verbatim>\<open>uint\<close> (section 3) and lets no value be
  "silently coerced" (section 7), so a number outside the range of \<^verbatim>\<open>uint\<close> is not
  wrapped: the node matches no shape (\<^verbatim>\<open>ShapeError\<close>).\<close>

definition route_with_port :: "string \<Rightarrow> RouteProtocol \<Rightarrow> nat \<Rightarrow> error + Route_f3" where
  "route_with_port h pr k =
     (if k < 2 ^ 64 then Inr \<lparr>Hostname = h, Protocol = pr, Port = of_nat k\<rparr>
      else Inl ShapeError)"

text \<open>Modelled from the spec: the route normalizer for Shapes A and B (section 4.2).
  The URL is split only when the protocol is TCP, otherwise the whole string is the
  hostname. The port follows the inference table: HTTP gives 80 and HTTPS or HTTP2
  gives 443 when the node has no explicit port ("inferring port by protocol when
  absent", section 2), TCP takes the embedded port or else the explicit \<^verbatim>\<open>port\<close>
  field and is a \<^verbatim>\<open>MissingPortError\<close> with neither. A protocol outside the table
  matches no shape (\<^verbatim>\<open>ShapeError\<close>, section 4.1). The protocol of the Route is the
  protocol of the node, unchanged: the spec states no rewriting of it.\<close>

definition normalizeRoute :: "RouteNode \<Rightarrow> error + Route_f3" where
  "normalizeRoute n =
     (if protocol n = TCP then
        (case embedded_port (address n) of
           Some (h, k) \<Rightarrow> route_with_port h TCP k
         | None \<Rightarrow>
             (case port n of
                Some k \<Rightarrow> route_with_port (address n) TCP k
              | None \<Rightarrow> Inl MissingPortError))
      else if protocol n = HTTP then
        (case port n of
           Some k \<Rightarrow> route_with_port (address n) HTTP k
         | None \<Rightarrow> Inr \<lparr>Hostname = address n, Protocol = HTTP, Port = 80\<rparr>)
      else if protocol n = HTTPS \<or> protocol n = ''http2'' then
        (case port n of
           Some k \<Rightarrow> route_with_port (address n) (protocol n) k
         | None \<Rightarrow> Inr \<lparr>Hostname = address n, Protocol = protocol n, Port = 443\<rparr>)
      else Inl ShapeError)"

subsection \<open>A concrete application\<close>

text \<open>A web process and an application that serves one route through it, as values
  of the fragment-4 records.\<close>

definition example_Process :: Process where
  "example_Process =
     \<lparr>Process.Type = Web, Image = ''registry.example.com/app:1'',
      Process.Command = [], DiskQuota = ''1G'', Process.Memory = ''512M'',
      HealthCheck = \<lparr>Endpoint = ''/health'', Timeout = 5, Interval = 30\<rparr>,
      ReadinessCheck = \<lparr>Endpoint = [], Timeout = 0, Interval = 0\<rparr>,
      Process.Replicas = 1, LogRateLimit = []\<rparr>"

definition example_Route :: Route where
  "example_Route = \<lparr>URL = ''app.example.com'', Protocol = HTTP\<rparr>"

definition example_Application :: Application where
  "example_Application =
     \<lparr>Metadata = \<lparr>Metadata.Name = ''app'', Space = [], Labels = Map.empty,
                   Annotations = Map.empty\<rparr>,
      Env = Map.empty, Routes = [example_Route], Services = [],
      Processes = [example_Process], Sidecars = [], Stack = [],
      StartupTimeout = 0, Application.Replicas = 1\<rparr>"

section \<open>Properties\<close>

subsection \<open>Helper facts\<close>

lemma member_names_marshal_Process:
  "set (member_names (marshal_Process p)) \<subseteq>
     {''type'', ''image'', ''command'', ''disk'', ''memory'', ''healthCheck'',
      ''readinessCheck'', ''replicas'', ''logRateLimit''}"
  by (auto simp: member_names_def marshal_Process_def omitempty_string_def
      omitempty_strings_def)

lemma marshal_Process_has_no_routes:
  "''routes'' \<notin> set (member_names (marshal_Process p))"
  by (simp add: member_names_def marshal_Process_def omitempty_string_def
      omitempty_strings_def)

lemma split_last_colon_append:
  assumes "CHR '':'' \<notin> set d"
  shows "split_last_colon (h @ CHR '':'' # d) = Some (h, d)"
proof -
  have all: "\<forall>c\<in>set (rev d). c \<noteq> CHR '':''"
    using assms by auto
  have "takeWhile (\<lambda>c. c \<noteq> CHR '':'') (rev d @ CHR '':'' # rev h) = rev d"
    using all by (simp add: takeWhile_tail)
  moreover have "dropWhile (\<lambda>c. c \<noteq> CHR '':'') (rev d @ CHR '':'' # rev h) = CHR '':'' # rev h"
    using all by (simp add: dropWhile_append3)
  ultimately show ?thesis
    by (simp add: split_last_colon_def)
qed

lemma is_digit_not_colon: "is_digit c \<Longrightarrow> c \<noteq> CHR '':''"
  by (auto simp: is_digit_def)

lemma numeric_no_colon: "numeric d \<Longrightarrow> CHR '':'' \<notin> set d"
  by (auto simp: numeric_def list_all_iff dest: is_digit_not_colon)

lemma embedded_port_append:
  assumes "numeric d"
  shows "embedded_port (h @ CHR '':'' # d) = Some (h, decimal d)"
  using assms numeric_no_colon [OF assms]
  by (simp add: embedded_port_def split_last_colon_append)

lemma embedded_port_no_colon: "CHR '':'' \<notin> set s \<Longrightarrow> embedded_port s = None"
  by (simp add: embedded_port_def split_last_colon_def)

lemma unat_port: "k < 2 ^ 64 \<Longrightarrow> unat (of_nat k :: uint) = k"
  by (simp add: unat_of_nat)

text \<open>A port that does not fit \<^verbatim>\<open>uint\<close> is never wrapped into a Route: an embedded
  port of 2 to the 64, one more than the largest \<^verbatim>\<open>uint\<close>, is an error.\<close>

lemma normalizeRoute_port_out_of_range:
  "normalizeRoute \<lparr>address = ''h:18446744073709551616'', protocol = ''tcp'', port = None\<rparr>
     = Inl ShapeError"
proof -
  have num: "numeric ''18446744073709551616''"
    by (simp add: numeric_def is_digit_def)
  have "embedded_port (''h'' @ CHR '':'' # ''18446744073709551616'')
          = Some (''h'', decimal ''18446744073709551616'')"
    using num by (rule embedded_port_append)
  moreover have "decimal ''18446744073709551616'' = 2 ^ 64"
    by (simp add: decimal_def digit_value_def)
  ultimately show ?thesis
    by (simp add: normalizeRoute_def TCP_def route_with_port_def)
qed

subsection \<open>Routes are held by the Application, not by its Processes\<close>

text \<open>
  C4 (as stated) asks every canonical Process to carry a \<open>Routes\<close> field whose
  entries are among the Application's Routes. In fragment 4, the version whose
  Application has Routes, the example application has one route and one web process,
  and the JSON object of that process has no \<open>routes\<close> member: the Process struct of
  lines 409-428 declares no such field.
\<close>

theorem Process_Routes_counterexample:
  "Routes example_Application = [example_Route]
   \<and> Processes example_Application = [example_Process]
   \<and> ''routes'' \<notin> set (member_names (marshal_Process example_Process))"
  by (simp add: example_Application_def example_Process_def member_names_def
      marshal_Process_def omitempty_string_def omitempty_strings_def Web_def)

text \<open>
  C4 (amended). In the version of the model whose Application carries Routes
  (fragment 4), a Process record has no Routes field. Every Process value is made of
  exactly the nine fields Type, Image, Command, DiskQuota, Memory, HealthCheck,
  ReadinessCheck, Replicas and LogRateLimit; its JSON object has members only among
  the nine tags of these fields and never a member \<open>routes\<close>. The routes of an
  application are held once, in Application.Routes, and a Process holds neither copies
  of them nor references to them.
\<close>

theorem Process_carries_no_Routes:
  "p = \<lparr>Process.Type = Process.Type p, Image = Image p,
        Process.Command = Process.Command p, DiskQuota = DiskQuota p,
        Process.Memory = Process.Memory p, HealthCheck = HealthCheck p,
        ReadinessCheck = ReadinessCheck p, Process.Replicas = Process.Replicas p,
        LogRateLimit = LogRateLimit p\<rparr>
   \<and> set (member_names (marshal_Process p)) \<subseteq>
       {''type'', ''image'', ''command'', ''disk'', ''memory'', ''healthCheck'',
        ''readinessCheck'', ''replicas'', ''logRateLimit''}
   \<and> ''routes'' \<notin> set (member_names (marshal_Process p))"
  using member_names_marshal_Process [of p] marshal_Process_has_no_routes [of p]
  by simp

subsection \<open>The protocol of a route\<close>

text \<open>
  C10 (as stated) says that Route.Protocol ranges over exactly the three declared
  constants, so that HTTP/2 cannot be represented as a value distinct from
  \<open>https\<close>. RouteProtocol is Go's string type: the route below, the first entry
  of the example in the comment of lines 354-356 (\<^verbatim>\<open>protocol: http2\<close>), is a Route
  whose Protocol is none of the three constants, and differs from HTTPS.
\<close>

theorem Route_Protocol_http2_counterexample:
  "Route.Protocol \<lparr>URL = ''example.com'', Protocol = ''http2''\<rparr>
     \<notin> set RouteProtocol_constants
   \<and> Route.Protocol \<lparr>URL = ''example.com'', Protocol = ''http2''\<rparr> \<noteq> HTTPS"
  by (simp add: RouteProtocol_constants_def HTTP_def HTTPS_def TCP_def)

text \<open>
  C10 (amended). In every version of the model the declared RouteProtocol constants
  are exactly \<open>http\<close>, \<open>https\<close> and \<open>tcp\<close>, pairwise distinct, and none of them is
  \<open>http2\<close>: no HTTP2 constant is declared. RouteProtocol itself is a string type, so
  the Protocol of a Route can hold any string; a route whose protocol is \<open>http2\<close> is
  representable and its Protocol differs from all three constants.
\<close>

theorem RouteProtocol_constants_http_https_tcp:
  "RouteProtocol_constants = [''http'', ''https'', ''tcp'']
   \<and> distinct RouteProtocol_constants
   \<and> ''http2'' \<notin> set RouteProtocol_constants
   \<and> Route.Protocol \<lparr>URL = u, Protocol = s\<rparr> = s"
  by (simp add: RouteProtocol_constants_def HTTP_def HTTPS_def TCP_def)

subsection \<open>The port of a normalized route\<close>

text \<open>
  C1. For every route node the normalizer accepts, the Port of the canonical Route
  follows the inference rule. With protocol HTTP and no explicit port the Port is 80;
  with HTTPS or HTTP2 and no explicit port it is 443. A TCP route whose URL ends in
  a colon and a number takes that number as Port and the text before the colon as
  hostname; a TCP route whose URL embeds no port takes the explicit port; a TCP route
  with neither fails with MissingPortError. The port taken from the source is one
  that a \<^verbatim>\<open>uint\<close> can hold, and the Port of the Route reads back as that number.
  Conversely the Port of every normalized TCP route is the port embedded in its URL
  or, when the URL embeds none, its explicit port.
\<close>

theorem Route_Port_inference:
  "(protocol n = HTTP \<and> port n = None \<longrightarrow>
      normalizeRoute n = Inr \<lparr>Hostname = address n, Protocol = HTTP, Port = 80\<rparr>)
   \<and> ((protocol n = HTTPS \<or> protocol n = ''http2'') \<and> port n = None \<longrightarrow>
      normalizeRoute n = Inr \<lparr>Hostname = address n, Protocol = protocol n, Port = 443\<rparr>)
   \<and> (protocol n = TCP \<and> address n = h @ CHR '':'' # d \<and> numeric d \<and> decimal d < 2 ^ 64 \<longrightarrow>
      normalizeRoute n = Inr \<lparr>Hostname = h, Protocol = TCP, Port = of_nat (decimal d)\<rparr>
      \<and> unat (of_nat (decimal d) :: uint) = decimal d)
   \<and> (protocol n = TCP \<and> embedded_port (address n) = None \<and> port n = Some p \<and> p < 2 ^ 64 \<longrightarrow>
      normalizeRoute n = Inr \<lparr>Hostname = address n, Protocol = TCP, Port = of_nat p\<rparr>
      \<and> unat (of_nat p :: uint) = p)
   \<and> (protocol n = TCP \<and> embedded_port (address n) = None \<and> port n = None \<longrightarrow>
      normalizeRoute n = Inl MissingPortError)
   \<and> (protocol n = TCP \<and> normalizeRoute n = Inr r \<longrightarrow>
      (\<exists>host. embedded_port (address n) = Some (host, unat (Port r)))
      \<or> (embedded_port (address n) = None \<and> port n = Some (unat (Port r))))"
proof -
  have http: "protocol n = HTTP \<and> port n = None \<longrightarrow>
      normalizeRoute n = Inr \<lparr>Hostname = address n, Protocol = HTTP, Port = 80\<rparr>"
    by (simp add: normalizeRoute_def HTTP_def TCP_def)
  have https: "(protocol n = HTTPS \<or> protocol n = ''http2'') \<and> port n = None \<longrightarrow>
      normalizeRoute n = Inr \<lparr>Hostname = address n, Protocol = protocol n, Port = 443\<rparr>"
    by (simp add: normalizeRoute_def HTTP_def HTTPS_def TCP_def)
  have embedded: "protocol n = TCP \<and> address n = h @ CHR '':'' # d \<and> numeric d
      \<and> decimal d < 2 ^ 64 \<longrightarrow>
      normalizeRoute n = Inr \<lparr>Hostname = h, Protocol = TCP, Port = of_nat (decimal d)\<rparr>
      \<and> unat (of_nat (decimal d) :: uint) = decimal d"
    by (simp add: normalizeRoute_def embedded_port_append route_with_port_def unat_port)
  have explicit: "protocol n = TCP \<and> embedded_port (address n) = None \<and> port n = Some p
      \<and> p < 2 ^ 64 \<longrightarrow>
      normalizeRoute n = Inr \<lparr>Hostname = address n, Protocol = TCP, Port = of_nat p\<rparr>
      \<and> unat (of_nat p :: uint) = p"
    by (simp add: normalizeRoute_def route_with_port_def unat_port)
  have neither: "protocol n = TCP \<and> embedded_port (address n) = None \<and> port n = None \<longrightarrow>
      normalizeRoute n = Inl MissingPortError"
    by (simp add: normalizeRoute_def)
  have from_source: "protocol n = TCP \<and> normalizeRoute n = Inr r \<longrightarrow>
      (\<exists>host. embedded_port (address n) = Some (host, unat (Port r)))
      \<or> (embedded_port (address n) = None \<and> port n = Some (unat (Port r)))"
    by (auto simp: normalizeRoute_def route_with_port_def unat_port
        split: option.splits if_splits)
  show ?thesis
    by (intro conjI)
      (rule http, rule https, rule embedded, rule explicit, rule neither, rule from_source)
qed

text \<open>The rule at five route nodes: an HTTP route, an HTTP2 route, the TCP route of the
  example in the sources (\<^verbatim>\<open>tcp-example.com:1234\<close>, part_000 line 358), a TCP route
  with an explicit port, and a TCP route with no port at all.\<close>

theorem Route_Port_inference_witness:
  "normalizeRoute \<lparr>address = ''example.com'', protocol = ''http'', port = None\<rparr>
     = Inr \<lparr>Hostname = ''example.com'', Protocol = ''http'', Port = 80\<rparr>
   \<and> normalizeRoute \<lparr>address = ''example.com'', protocol = ''http2'', port = None\<rparr>
     = Inr \<lparr>Hostname = ''example.com'', Protocol = ''http2'', Port = 443\<rparr>
   \<and> normalizeRoute \<lparr>address = ''tcp-example.com:1234'', protocol = ''tcp'', port = None\<rparr>
     = Inr \<lparr>Hostname = ''tcp-example.com'', Protocol = ''tcp'', Port = 1234\<rparr>
   \<and> normalizeRoute \<lparr>address = ''tcp-example.com'', protocol = ''tcp'', port = Some 5000\<rparr>
     = Inr \<lparr>Hostname = ''tcp-example.com'', Protocol = ''tcp'', Port = 5000\<rparr>
   \<and> normalizeRoute \<lparr>address = ''tcp-example.com'', protocol = ''tcp'', port = None\<rparr>
     = Inl MissingPortError"
proof -
  have num: "numeric ''1234''"
    by (simp add: numeric_def is_digit_def)
  have dec: "decimal ''1234'' = 1234"
    by (simp add: decimal_def digit_value_def)
  have none: "embedded_port ''tcp-example.com'' = None"
    by (rule embedded_port_no_colon) simp
  have r1: "normalizeRoute \<lparr>address = ''example.com'', protocol = ''http'', port = None\<rparr>
     = Inr \<lparr>Hostname = ''example.com'', Protocol = ''http'', Port = 80\<rparr>"
    using Route_Port_inference
      [of "\<lparr>address = ''example.com'', protocol = ''http'', port = None\<rparr>"]
    by (simp add: HTTP_def)
  have r2: "normalizeRoute \<lparr>address = ''example.com'', protocol = ''http2'', port = None\<rparr>
     = Inr \<lparr>Hostname = ''example.com'', Protocol = ''http2'', Port = 443\<rparr>"
    using Route_Port_inference
      [of "\<lparr>address = ''example.com'', protocol = ''http2'', port = None\<rparr>"]
    by simp
  have r3: "normalizeRoute \<lparr>address = ''tcp-example.com:1234'', protocol = ''tcp'', port = None\<rparr>
     = Inr \<lparr>Hostname = ''tcp-example.com'', Protocol = ''tcp'', Port = 1234\<rparr>"
    using Route_Port_inference
      [of "\<lparr>address = ''tcp-example.com:1234'', protocol = ''tcp'', port = None\<rparr>"
          "''tcp-example.com''" "''1234''"] num dec
    by (simp add: TCP_def)
  have r4: "normalizeRoute \<lparr>address = ''tcp-example.com'', protocol = ''tcp'', port = Some 5000\<rparr>
     = Inr \<lparr>Hostname = ''tcp-example.com'', Protocol = ''tcp'', Port = 5000\<rparr>"
    using Route_Port_inference
      [of "\<lparr>address = ''tcp-example.com'', protocol = ''tcp'', port = Some 5000\<rparr>" _ _ 5000]
      none
    by (simp add: TCP_def)
  have r5: "normalizeRoute \<lparr>address = ''tcp-example.com'', protocol = ''tcp'', port = None\<rparr>
     = Inl MissingPortError"
    using Route_Port_inference
      [of "\<lparr>address = ''tcp-example.com'', protocol = ''tcp'', port = None\<rparr>"] none
    by (simp add: TCP_def)
  show ?thesis
    by (intro conjI) (rule r1, rule r2, rule r3, rule r4, rule r5)
qed

end
